theory Spec2Isabelle
  imports Main "HOL-Library.Sublist"
begin

section \<open>Strings of the source\<close>

text \<open>
  The TypeScript strings are modelled as \<^typ>\<open>string\<close>; a \<^typ>\<open>char\<close> stands for one
  code unit below 256. A string is truthy exactly when it is not empty.
  \<open>String.prototype.trim\<close> strips white space and line terminators at both ends; the
  code units below 256 that count are TAB, LF, VT, FF, CR, SPACE and NBSP.
\<close>

definition isWhiteSpace :: "char \<Rightarrow> bool" where
  "isWhiteSpace c =
     (c \<in> set [CHR 0x09, CHR 0x0A, CHR 0x0B, CHR 0x0C, CHR 0x0D, CHR 0x20, CHR 0xA0])"

definition trim :: "string \<Rightarrow> string" where
  "trim s = rev (dropWhile isWhiteSpace (rev (dropWhile isWhiteSpace s)))"

text \<open>\<open>s.includes(sub)\<close>: \<open>sub\<close> occurs in \<open>s\<close> as a contiguous run.\<close>

fun str_includes :: "string \<Rightarrow> string \<Rightarrow> bool" where
  "str_includes [] sub = (sub = [])"
| "str_includes (c # cs) sub = (prefix sub (c # cs) \<or> str_includes cs sub)"


section \<open>SpeechConversation: the capture/synthesize controller\<close>

subsection \<open>Data\<close>

text \<open>\<open>interface Message { text: string; type: 'user' | 'system' }\<close>\<close>

datatype speaker = User | System

record message =
  msg_text :: string
  msg_type :: speaker

text \<open>
  One entry of \<open>event.results\<close>: the transcript of its first alternative and its
  \<open>isFinal\<close> flag; and the event itself with its \<open>resultIndex\<close>.
\<close>

record recognition_result =
  transcript :: string
  isFinal :: bool

record recognition_event =
  results :: "recognition_result list"
  resultIndex :: nat

text \<open>
  What \<open>localStorage.getItem('repoConfig')\<close> holds: nothing (null or the empty string),
  a text that \<open>JSON.parse\<close> accepts (the flag says whether the parsed value is truthy),
  or a text on which \<open>JSON.parse\<close> throws a SyntaxError with the given message.
\<close>

datatype stored_config = Absent | Json bool | Malformed string

text \<open>
  How the awaited backend call of \<open>handleUserInput\<close> ends: a response with \<open>ok\<close> and
  body field \<open>text\<close>; a response that is not \<open>ok\<close>, with the \<open>message\<close> field of its body
  if it has one; or an Error thrown by \<open>fetch\<close> or by \<open>response.json()\<close>, with its
  message.
\<close>

datatype response = ResponseOk string | ResponseNotOk "string option" | FetchFailed string

text \<open>The calls the component makes on the platform and on its collaborators, in order.\<close>

datatype effect =
    StartConversation
  | PostMessage string string
  | Navigate string
  | GetUserMedia
  | RecognitionStart
  | RecognitionStop
  | SynthCancel
  | SynthSpeak string
  | Alert string

text \<open>
  The component's state hooks and refs, followed by what the platform holds for it:
  the stored configuration, whether \<open>window.speechSynthesis\<close> exists, whether the
  recognition engine is running (between a successful \<open>start()\<close> and its \<open>end\<close> event),
  the trace of calls made, the backend message calls not yet resolved (conversation id
  and text), and the invocations of \<open>toggleListening\<close> suspended at
  \<open>await getUserMedia\<close>, each with the values of \<open>speechRecognition\<close> and \<open>isSpeaking\<close>
  its closure captured.
\<close>

record conversation =
  messages :: "message list"
  isListening :: bool
  isSpeaking :: bool
  speechRecognition :: bool
  interimTranscript :: string
  finalTranscript :: string
  finalTranscriptRef :: string
  error :: "string option"
  conversationIdRef :: "string option"
  isInitializedRef :: bool
  isLoading :: bool
  resetDialogOpen :: bool
  repoConfig :: stored_config
  synthesisAvailable :: bool
  recognitionActive :: bool
  effects :: "effect list"
  pendingMessages :: "(string \<times> string) list"
  pendingMedia :: "(bool \<times> bool) list"

subsection \<open>Handlers\<close>

text \<open>\<open>getRepoConfig\<close>: the parsed configuration (here: whether it is truthy), or the
  message of the SyntaxError.\<close>

definition getRepoConfig :: "conversation \<Rightarrow> string + bool" where
  "getRepoConfig s =
     (case repoConfig s of Absent \<Rightarrow> Inr False | Json b \<Rightarrow> Inr b | Malformed m \<Rightarrow> Inl m)"

text \<open>The updater of \<open>setFinalTranscript\<close> in \<open>recognition.onresult\<close>:
  \<open>prev ? `${prev} ${transcript}` : transcript\<close>.\<close>

definition appendFinal :: "string \<Rightarrow> string \<Rightarrow> string" where
  "appendFinal prev t = (if prev \<noteq> [] then prev @ '' '' @ t else t)"

text \<open>The body of the loop of \<open>recognition.onresult\<close> for one result.\<close>

definition onresult_one :: "recognition_result \<Rightarrow> conversation \<Rightarrow> conversation" where
  "onresult_one r s =
     (if isFinal r then
        (let newTranscript = appendFinal (finalTranscript s) (transcript r)
         in s\<lparr>finalTranscript := newTranscript, finalTranscriptRef := newTranscript\<rparr>)
      else s\<lparr>interimTranscript := transcript r\<rparr>)"

fun onresult_loop :: "recognition_result list \<Rightarrow> conversation \<Rightarrow> conversation" where
  "onresult_loop [] s = s"
| "onresult_loop (r # rs) s = onresult_loop rs (onresult_one r s)"

text \<open>\<open>recognition.onresult\<close>: the loop runs over \<open>results[resultIndex .. length - 1]\<close>.\<close>

definition onresult :: "recognition_event \<Rightarrow> conversation \<Rightarrow> conversation" where
  "onresult ev s = onresult_loop (drop (resultIndex ev) (results ev)) s"

text \<open>\<open>handleReset\<close>\<close>

definition handleReset :: "conversation \<Rightarrow> conversation" where
  "handleReset s =
     s\<lparr>conversationIdRef := None, resetDialogOpen := False,
       effects := effects s @ [Navigate ''/auth'']\<rparr>"

text \<open>\<open>speakText\<close>: nothing without \<open>window.speechSynthesis\<close>; otherwise \<open>cancel()\<close>, then
  \<open>speak\<close> of a new utterance of the text. \<open>isSpeaking\<close> changes only on the utterance's
  own start, end and error notifications.\<close>

definition speakText :: "string \<Rightarrow> conversation \<Rightarrow> conversation" where
  "speakText t s =
     (if \<not> synthesisAvailable s then s
      else s\<lparr>effects := effects s @ [SynthCancel, SynthSpeak t]\<rparr>)"

text \<open>The \<open>catch\<close> block of \<open>handleUserInput\<close>, for a thrown Error with message \<open>m\<close>.\<close>

definition handleUserInput_catch :: "string \<Rightarrow> conversation \<Rightarrow> conversation" where
  "handleUserInput_catch m s =
     (let s1 = s\<lparr>error := Some ''Sorry, there was an error processing your request. Please try again.'',
                 isLoading := False\<rparr>
      in if str_includes m ''repository'' then handleReset s1
         else s1\<lparr>messages := messages s1 @
                [\<lparr>msg_text = ''I'm having trouble processing your request right now. Please try again.'',
                  msg_type = System\<rparr>]\<rparr>)"

text \<open>
  \<open>handleUserInput\<close> is an async function. Its first part runs up to \<open>await fetch\<close>; the
  result says where it stopped: the text was blank, the configuration was missing and the
  user was sent to setup, no conversation id was held, \<open>getRepoConfig\<close> threw, or the
  backend call was issued for the given conversation id.
\<close>

datatype submitted = Skipped | Redirected | NoConversation | Threw | Requested string

definition handleUserInput_begin :: "string \<Rightarrow> conversation \<Rightarrow> submitted \<times> conversation" where
  "handleUserInput_begin txt s =
     (if trim txt = [] then (Skipped, s)
      else
        let s1 = s\<lparr>messages := messages s @ [\<lparr>msg_text = txt, msg_type = User\<rparr>]\<rparr> in
        case getRepoConfig s1 of
          Inl m \<Rightarrow> (Threw, handleUserInput_catch m s1)
        | Inr False \<Rightarrow> (Redirected, s1\<lparr>effects := effects s1 @ [Navigate ''/auth'']\<rparr>)
        | Inr True \<Rightarrow>
            (case conversationIdRef s1 of
               None \<Rightarrow>
                 (NoConversation, s1\<lparr>error := Some ''No active conversation. Please try again.''\<rparr>)
             | Some cid \<Rightarrow>
                 if cid = [] then
                   (NoConversation, s1\<lparr>error := Some ''No active conversation. Please try again.''\<rparr>)
                 else
                   (Requested cid,
                    s1\<lparr>error := None, isLoading := True,
                       effects := effects s1 @ [PostMessage cid txt],
                       pendingMessages := pendingMessages s1 @ [(cid, txt)]\<rparr>)))"

text \<open>The rest of \<open>handleUserInput\<close>, run when the awaited call ends.
  \<open>errorData.message || 'Failed to process message'\<close> is the message of the Error thrown
  for a response that is not \<open>ok\<close>.\<close>

definition failureMessage :: "string option \<Rightarrow> string" where
  "failureMessage m =
     (case m of None \<Rightarrow> ''Failed to process message''
      | Some x \<Rightarrow> if x \<noteq> [] then x else ''Failed to process message'')"

definition handleUserInput_resume :: "response \<Rightarrow> conversation \<Rightarrow> conversation" where
  "handleUserInput_resume resp s =
     (case resp of
        ResponseOk reply \<Rightarrow>
          speakText reply
            (s\<lparr>isLoading := False,
               messages := messages s @ [\<lparr>msg_text = reply, msg_type = System\<rparr>]\<rparr>)
      | ResponseNotOk m \<Rightarrow> handleUserInput_catch (failureMessage m) s
      | FetchFailed m \<Rightarrow> handleUserInput_catch m s)"

text \<open>\<open>recognition.onend\<close>: the call of \<open>handleUserInput\<close> runs its first part at once; the
  two buffers are cleared after it.\<close>

definition onend :: "conversation \<Rightarrow> conversation" where
  "onend s =
     (let s1 = (if finalTranscriptRef s \<noteq> [] then
                  (snd (handleUserInput_begin (trim (finalTranscriptRef s)) s))
                    \<lparr>finalTranscript := [], finalTranscriptRef := []\<rparr>
                else s)
      in s1\<lparr>isListening := False\<rparr>)"

text \<open>\<open>recognition.onerror\<close>\<close>

definition onerror :: "conversation \<Rightarrow> conversation" where
  "onerror s = s\<lparr>isListening := False\<rparr>"

text \<open>
  \<open>toggleListening\<close> is an async function too. When listening it stops the engine at once.
  Otherwise it asks for the microphone and is suspended; the values of \<open>speechRecognition\<close>
  and \<open>isSpeaking\<close> it tests afterwards are those of the render that created the callback.
\<close>

definition toggleListening_begin :: "conversation \<Rightarrow> conversation" where
  "toggleListening_begin s =
     (if isListening s then
        (if speechRecognition s then
           s\<lparr>effects := effects s @ [RecognitionStop], isListening := False\<rparr>
         else s)
      else
        s\<lparr>effects := effects s @ [GetUserMedia],
          pendingMedia := pendingMedia s @ [(speechRecognition s, isSpeaking s)]\<rparr>)"

text \<open>
  The rest of \<open>toggleListening\<close>, for the captured pair, when \<open>getUserMedia\<close> ends: with a
  stream (\<open>None\<close>) or with an Error (its message). \<open>start()\<close> on an engine that is already
  running throws an InvalidStateError, which the same \<open>catch\<close> reports.
\<close>

definition toggleListening_resume ::
  "bool \<times> bool \<Rightarrow> string option \<Rightarrow> conversation \<Rightarrow> conversation" where
  "toggleListening_resume captured denied s =
     (case denied of
        Some m \<Rightarrow> s\<lparr>effects := effects s @ [Alert (''Error accessing microphone: '' @ m)]\<rparr>
      | None \<Rightarrow>
          if fst captured \<and> \<not> snd captured then
            (let s1 = s\<lparr>finalTranscript := [], interimTranscript := []\<rparr> in
             if recognitionActive s1 then
               s1\<lparr>effects := effects s1 @
                    [Alert (''Error accessing microphone: '' @ ''recognition has already started'')]\<rparr>
             else
               s1\<lparr>effects := effects s1 @ [RecognitionStart],
                  recognitionActive := True, isListening := True\<rparr>)
          else s)"

text \<open>The effect that starts the conversation on mount, and the end of its awaited call:
  an id from the backend, or a failure.\<close>

definition startNewConversation_begin :: "conversation \<Rightarrow> conversation" where
  "startNewConversation_begin s =
     (case getRepoConfig s of
        Inl m \<Rightarrow> s
      | Inr False \<Rightarrow> s\<lparr>effects := effects s @ [Navigate ''/auth'']\<rparr>
      | Inr True \<Rightarrow> s\<lparr>effects := effects s @ [StartConversation]\<rparr>)"

definition mount :: "conversation \<Rightarrow> conversation" where
  "mount s =
     (if conversationIdRef s = None \<and> \<not> isInitializedRef s then
        startNewConversation_begin (s\<lparr>isInitializedRef := True\<rparr>)
      else s)"

definition startNewConversation_resume :: "string option \<Rightarrow> conversation \<Rightarrow> conversation" where
  "startNewConversation_resume r s =
     (case r of
        Some cid \<Rightarrow>
          if cid \<noteq> [] then s\<lparr>conversationIdRef := Some cid\<rparr>
          else s\<lparr>error := Some ''Failed to start conversation. Please check your repository settings.'',
                 effects := effects s @ [Navigate ''/auth'']\<rparr>
      | None \<Rightarrow>
          s\<lparr>error := Some ''Failed to start conversation. Please check your repository settings.'',
            effects := effects s @ [Navigate ''/auth'']\<rparr>)"

subsection \<open>The controller as a transition system\<close>

text \<open>
  Everything that can happen to the mounted component: the start call ends; the engine
  reports results, its end or an error; \<open>toggleListening\<close> is invoked directly or through
  the button (which is disabled while \<open>isSpeaking\<close>); a suspended \<open>toggleListening\<close> or a
  pending backend call ends; the utterance reports its start, end or error; the reset
  dialog is opened, confirmed or dismissed.
\<close>

datatype event =
    StartResolved "string option"
  | RecognitionResult recognition_event
  | RecognitionEnd
  | RecognitionError
  | ToggleListening
  | FabClick
  | MediaResolved nat "string option"
  | MessageResolved nat response
  | UtteranceStart
  | UtteranceEnd
  | UtteranceError
  | OpenResetDialog
  | ConfirmReset
  | CancelReset

definition remove_nth :: "nat \<Rightarrow> 'a list \<Rightarrow> 'a list" where
  "remove_nth k xs = take k xs @ drop (Suc k) xs"

fun step :: "event \<Rightarrow> conversation \<Rightarrow> conversation" where
  "step (StartResolved r) s = startNewConversation_resume r s"
| "step (RecognitionResult ev) s = onresult ev s"
| "step RecognitionEnd s = onend (s\<lparr>recognitionActive := False\<rparr>)"
| "step RecognitionError s = onerror s"
| "step ToggleListening s = toggleListening_begin s"
| "step FabClick s = (if isSpeaking s then s else toggleListening_begin s)"
| "step (MediaResolved k denied) s =
     (if k < length (pendingMedia s) then
        toggleListening_resume (pendingMedia s ! k) denied
          (s\<lparr>pendingMedia := remove_nth k (pendingMedia s)\<rparr>)
      else s)"
| "step (MessageResolved k resp) s =
     (if k < length (pendingMessages s) then
        handleUserInput_resume resp (s\<lparr>pendingMessages := remove_nth k (pendingMessages s)\<rparr>)
      else s)"
| "step UtteranceStart s = s\<lparr>isSpeaking := True\<rparr>"
| "step UtteranceEnd s = s\<lparr>isSpeaking := False\<rparr>"
| "step UtteranceError s = s\<lparr>isSpeaking := False\<rparr>"
| "step OpenResetDialog s = s\<lparr>resetDialogOpen := True\<rparr>"
| "step ConfirmReset s = handleReset s"
| "step CancelReset s = s\<lparr>resetDialogOpen := False\<rparr>"

fun run :: "event list \<Rightarrow> conversation \<Rightarrow> conversation" where
  "run [] s = s"
| "run (e # es) s = run es (step e s)"

text \<open>The component after its first render and effects, on a platform with the given
  stored configuration, with or without speech synthesis and recognition.\<close>

definition initial :: "stored_config \<Rightarrow> bool \<Rightarrow> bool \<Rightarrow> conversation" where
  "initial cfg synth recog =
     mount \<lparr>messages = [], isListening = False, isSpeaking = False,
            speechRecognition = recog, interimTranscript = [], finalTranscript = [],
            finalTranscriptRef = [], error = None, conversationIdRef = None,
            isInitializedRef = False, isLoading = False, resetDialogOpen = False,
            repoConfig = cfg, synthesisAvailable = synth, recognitionActive = False,
            effects = [], pendingMessages = [], pendingMedia = []\<rparr>"

subsection \<open>What the specification says about the transcript and the backend calls\<close>

text \<open>The results an event reports, and over a sequence of events the final fragments
  and the interim hypotheses in arrival order.\<close>

definition reported :: "recognition_event \<Rightarrow> recognition_result list" where
  "reported ev = drop (resultIndex ev) (results ev)"

definition finalFragments :: "recognition_event list \<Rightarrow> string list" where
  "finalFragments evs = map transcript (filter isFinal (concat (map reported evs)))"

definition interimHypotheses :: "recognition_event list \<Rightarrow> string list" where
  "interimHypotheses evs =
     map transcript (filter (\<lambda>r. \<not> isFinal r) (concat (map reported evs)))"

text \<open>Fragments joined with exactly one space between neighbours.\<close>

fun join_spaced :: "string list \<Rightarrow> string" where
  "join_spaced [] = []"
| "join_spaced [x] = x"
| "join_spaced (x # y # ys) = x @ '' '' @ join_spaced (y # ys)"

text \<open>A sequence of recognition events delivered to \<open>recognition.onresult\<close>.\<close>

fun onresults :: "recognition_event list \<Rightarrow> conversation \<Rightarrow> conversation" where
  "onresults [] s = s"
| "onresults (ev # evs) s = onresults evs (onresult ev s)"

text \<open>The user Turns of the history, and single flight: no two unresolved backend
  message calls carry the same conversation id.\<close>

definition userTurns :: "conversation \<Rightarrow> message list" where
  "userTurns s = filter (\<lambda>m. msg_type m = User) (messages s)"

definition singleFlight :: "conversation \<Rightarrow> bool" where
  "singleFlight s = distinct (map fst (pendingMessages s))"


section \<open>VoiceChat: the peer-audio transport\<close>

subsection \<open>Data\<close>

text \<open>
  The browser objects the component holds are kept in a store, each kind indexed by a
  number: media tracks (kind, \<open>enabled\<close>, and whether \<open>stop()\<close> has ended them), peer
  connections (the tracks of their senders, a sender's track possibly null, and whether
  \<open>close()\<close> was called), audio contexts, and the source nodes of the audio graph
  (connected or not).
\<close>

datatype track_kind = Audio | Video

record track =
  kind :: track_kind
  enabled :: bool
  ended :: bool

record peer_connection =
  senders :: "nat option list"
  closed :: bool

datatype context_state = Running | Closed

datatype sender_role = FromUser | FromAssistant

record vc_message =
  vc_text :: string
  sender :: sender_role
  timestamp :: nat

text \<open>What crosses the signaling endpoint, in order: the offer request and a candidate
  request (each with the \<open>webrtc_id\<close> it carried), and the return of an offer request.\<close>

datatype wire = OfferSent string | CandidateSent string string | OfferReturned

text \<open>
  The state hooks and refs of the component, the store, the signaling trace, and the
  number of \<open>setupWebRTC\<close> invocations suspended at \<open>await getUserMedia\<close> and at the
  awaited offer request.
\<close>

record voice_chat =
  isRecording :: bool
  isMuted :: bool
  vc_error :: "string option"
  vc_isLoading :: bool
  vc_messages :: "vc_message list"
  isConnected :: bool
  vc_isListening :: bool
  peerConnectionRef :: "nat option"
  audioContextRef :: "nat option"
  dataChannelRef :: "nat option"
  webrtcIdRef :: string
  analyserInputRef :: "nat option"
  analyserOutputRef :: "nat option"
  sourceInputRef :: "nat option"
  sourceOutputRef :: "nat option"
  tracks :: "nat \<Rightarrow> track"
  connections :: "nat \<Rightarrow> peer_connection"
  contexts :: "nat \<Rightarrow> context_state"
  nodes :: "nat \<Rightarrow> bool"
  nextId :: nat
  signaling :: "wire list"
  awaitingMedia :: nat
  awaitingAnswer :: nat

subsection \<open>Handlers\<close>

text \<open>\<open>getSenders().forEach(sender => { if (sender.track) sender.track.stop() })\<close>\<close>

fun stopSenders :: "nat option list \<Rightarrow> (nat \<Rightarrow> track) \<Rightarrow> (nat \<Rightarrow> track)" where
  "stopSenders [] ts = ts"
| "stopSenders (None # sds) ts = stopSenders sds ts"
| "stopSenders (Some t # sds) ts = stopSenders sds (ts(t := (ts t)\<lparr>ended := True\<rparr>))"

text \<open>\<open>stopWebRTC\<close>: each of the four refs is released and nulled when it is set, then the
  two flags are cleared.\<close>

definition stopWebRTC :: "voice_chat \<Rightarrow> voice_chat" where
  "stopWebRTC s =
     (let s1 = (case peerConnectionRef s of
                  None \<Rightarrow> s
                | Some p \<Rightarrow>
                    s\<lparr>tracks := stopSenders (senders (connections s p)) (tracks s),
                      connections := (connections s)(p := (connections s p)\<lparr>closed := True\<rparr>),
                      peerConnectionRef := None\<rparr>);
          s2 = (case audioContextRef s1 of
                  None \<Rightarrow> s1
                | Some c \<Rightarrow> s1\<lparr>contexts := (contexts s1)(c := Closed), audioContextRef := None\<rparr>);
          s3 = (case sourceInputRef s2 of
                  None \<Rightarrow> s2
                | Some n \<Rightarrow> s2\<lparr>nodes := (nodes s2)(n := False), sourceInputRef := None\<rparr>);
          s4 = (case sourceOutputRef s3 of
                  None \<Rightarrow> s3
                | Some n \<Rightarrow> s3\<lparr>nodes := (nodes s3)(n := False), sourceOutputRef := None\<rparr>)
      in s4\<lparr>isRecording := False, isMuted := False\<rparr>)"

text \<open>The loop of \<open>toggleMute\<close>: \<open>enabled\<close> is written on the audio tracks of the senders.\<close>

fun setAudioEnabled :: "bool \<Rightarrow> nat option list \<Rightarrow> (nat \<Rightarrow> track) \<Rightarrow> (nat \<Rightarrow> track)" where
  "setAudioEnabled b [] ts = ts"
| "setAudioEnabled b (None # sds) ts = setAudioEnabled b sds ts"
| "setAudioEnabled b (Some t # sds) ts =
     setAudioEnabled b sds
       (if kind (ts t) = Audio then ts(t := (ts t)\<lparr>enabled := b\<rparr>) else ts)"

definition toggleMute :: "voice_chat \<Rightarrow> voice_chat" where
  "toggleMute s =
     (case peerConnectionRef s of
        None \<Rightarrow> s
      | Some p \<Rightarrow>
          (let newMutedState = \<not> isMuted s
           in s\<lparr>tracks := setAudioEnabled (\<not> newMutedState) (senders (connections s p)) (tracks s),
                isMuted := newMutedState\<rparr>))"

text \<open>\<open>handleIceCandidate\<close>: a candidate is posted at once with the current \<open>webrtc_id\<close>;
  the end-of-candidates event (null) is ignored. A failed post is only logged.\<close>

definition handleIceCandidate :: "string option \<Rightarrow> voice_chat \<Rightarrow> voice_chat" where
  "handleIceCandidate candidate s =
     (case candidate of
        None \<Rightarrow> s
      | Some c \<Rightarrow> s\<lparr>signaling := signaling s @ [CandidateSent (webrtcIdRef s) c]\<rparr>)"

text \<open>\<open>handleConnectionStateChange\<close>, for the connection state the platform reports.\<close>

definition handleConnectionStateChange :: "string \<Rightarrow> voice_chat \<Rightarrow> voice_chat" where
  "handleConnectionStateChange st s =
     (case peerConnectionRef s of
        None \<Rightarrow> s
      | Some p \<Rightarrow>
          (let s1 = s\<lparr>isConnected := (st = ''connected'')\<rparr>
           in if st \<in> set [''disconnected'', ''failed'', ''closed''] then stopWebRTC s1 else s1))"

text \<open>
  \<open>setupWebRTC\<close> in three parts, split at \<open>await getUserMedia\<close> and at the awaited offer
  request. The second part runs when the stream arrives: its tracks enter the store, the
  peer connection gets them as senders, the audio graph and the data channel are built,
  and, the local description set, the offer is posted. The constructor of the peer
  connection throws on a configuration it rejects. The third part runs when the offer
  request returns; if \<open>stopWebRTC\<close> has nulled the connection ref by then,
  \<open>peerConnectionRef.current.setRemoteDescription\<close> throws a TypeError (its message is
  the engine's). The \<open>catch\<close> block stores the message and calls \<open>stopWebRTC\<close>; the
  \<open>finally\<close> block clears \<open>isLoading\<close>.
\<close>

datatype media_outcome =
    MediaGranted "track_kind list" string "string option"
  | MediaRefused string

datatype answer_outcome = AnswerOk | AnswerFailed string

definition setupWebRTC_catch :: "string \<Rightarrow> voice_chat \<Rightarrow> voice_chat" where
  "setupWebRTC_catch m s = (stopWebRTC (s\<lparr>vc_error := Some m\<rparr>))\<lparr>vc_isLoading := False\<rparr>"

definition setupWebRTC_begin :: "string \<Rightarrow> voice_chat \<Rightarrow> voice_chat" where
  "setupWebRTC_begin apiKey s =
     (if apiKey = [] then
        s\<lparr>vc_error := Some ''Please provide a valid Gemini API key in your .env file''\<rparr>
      else s\<lparr>vc_isLoading := True, vc_error := None, awaitingMedia := Suc (awaitingMedia s)\<rparr>)"

fun addTracks :: "nat \<Rightarrow> track_kind list \<Rightarrow> (nat \<Rightarrow> track) \<Rightarrow> (nat \<Rightarrow> track)" where
  "addTracks n [] ts = ts"
| "addTracks n (k # ks) ts =
     addTracks (Suc n) ks (ts(n := \<lparr>kind = k, enabled = True, ended = False\<rparr>))"

definition setupWebRTC_media :: "media_outcome \<Rightarrow> voice_chat \<Rightarrow> voice_chat" where
  "setupWebRTC_media outcome s =
     (case outcome of
        MediaRefused m \<Rightarrow> setupWebRTC_catch m s
      | MediaGranted kinds wid rejected \<Rightarrow>
          (let n = nextId s; k = length kinds;
               s1 = s\<lparr>webrtcIdRef := wid, tracks := addTracks n kinds (tracks s),
                      nextId := n + k\<rparr>
           in case rejected of
                Some m \<Rightarrow> setupWebRTC_catch m s1
              | None \<Rightarrow>
                  s1\<lparr>connections := (connections s1)
                         (n + k := \<lparr>senders = map Some [n ..< n + k], closed = False\<rparr>),
                     peerConnectionRef := Some (n + k),
                     contexts := (contexts s1)(n + k + 1 := Running),
                     audioContextRef := Some (n + k + 1),
                     nodes := (nodes s1)(n + k + 2 := True),
                     sourceInputRef := Some (n + k + 2),
                     analyserInputRef := Some (n + k + 3),
                     dataChannelRef := Some (n + k + 4),
                     nextId := n + k + 5,
                     signaling := signaling s1 @ [OfferSent wid],
                     awaitingAnswer := Suc (awaitingAnswer s1)\<rparr>))"

definition setupWebRTC_answer :: "answer_outcome \<Rightarrow> voice_chat \<Rightarrow> voice_chat" where
  "setupWebRTC_answer outcome s =
     (let s1 = s\<lparr>signaling := signaling s @ [OfferReturned]\<rparr>
      in case outcome of
           AnswerFailed m \<Rightarrow> setupWebRTC_catch m s1
         | AnswerOk \<Rightarrow>
             (case peerConnectionRef s1 of
                None \<Rightarrow>
                  setupWebRTC_catch ''Cannot read properties of null (reading 'setRemoteDescription')'' s1
              | Some p \<Rightarrow> s1\<lparr>isRecording := True, vc_isLoading := False\<rparr>))"

subsection \<open>The transport as a transition system\<close>

datatype vc_event =
    SetupClick string
  | MediaResolves media_outcome
  | AnswerResolves answer_outcome
  | IceCandidate "string option"
  | ConnectionState string
  | StopClick
  | MuteClick

fun vc_step :: "vc_event \<Rightarrow> voice_chat \<Rightarrow> voice_chat" where
  "vc_step (SetupClick apiKey) s = setupWebRTC_begin apiKey s"
| "vc_step (MediaResolves outcome) s =
     (if 0 < awaitingMedia s then
        setupWebRTC_media outcome (s\<lparr>awaitingMedia := awaitingMedia s - 1\<rparr>)
      else s)"
| "vc_step (AnswerResolves outcome) s =
     (if 0 < awaitingAnswer s then
        setupWebRTC_answer outcome (s\<lparr>awaitingAnswer := awaitingAnswer s - 1\<rparr>)
      else s)"
| "vc_step (IceCandidate c) s = handleIceCandidate c s"
| "vc_step (ConnectionState st) s = handleConnectionStateChange st s"
| "vc_step StopClick s = stopWebRTC s"
| "vc_step MuteClick s = toggleMute s"

fun vc_run :: "vc_event list \<Rightarrow> voice_chat \<Rightarrow> voice_chat" where
  "vc_run [] s = s"
| "vc_run (e # es) s = vc_run es (vc_step e s)"

text \<open>The component after its first render, with an empty store.\<close>

definition vc_initial :: voice_chat where
  "vc_initial =
     \<lparr>isRecording = False, isMuted = False, vc_error = None, vc_isLoading = False,
      vc_messages = [], isConnected = False, vc_isListening = False,
      peerConnectionRef = None, audioContextRef = None, dataChannelRef = None,
      webrtcIdRef = [], analyserInputRef = None, analyserOutputRef = None,
      sourceInputRef = None, sourceOutputRef = None,
      tracks = (\<lambda>_. \<lparr>kind = Audio, enabled = True, ended = True\<rparr>),
      connections = (\<lambda>_. \<lparr>senders = [], closed = True\<rparr>),
      contexts = (\<lambda>_. Closed), nodes = (\<lambda>_. False), nextId = 0,
      signaling = [], awaitingMedia = 0, awaitingAnswer = 0\<rparr>"

text \<open>Queueing as the specification words it: while an offer request has not returned,
  no candidate request is sent. The first argument counts the offers outstanding.\<close>

fun candidatesHeldBack :: "nat \<Rightarrow> wire list \<Rightarrow> bool" where
  "candidatesHeldBack n [] = True"
| "candidatesHeldBack n (OfferSent w # ws) = candidatesHeldBack (Suc n) ws"
| "candidatesHeldBack n (OfferReturned # ws) = candidatesHeldBack (n - 1) ws"
| "candidatesHeldBack n (CandidateSent w c # ws) = (n = 0 \<and> candidatesHeldBack n ws)"


section \<open>Scenarios\<close>

text \<open>An event that reports one final, or one interim, result.\<close>

definition finalResult :: "string \<Rightarrow> recognition_event" where
  "finalResult t = \<lparr>results = [\<lparr>transcript = t, isFinal = True\<rparr>], resultIndex = 0\<rparr>"

definition interimResult :: "string \<Rightarrow> recognition_event" where
  "interimResult t = \<lparr>results = [\<lparr>transcript = t, isFinal = False\<rparr>], resultIndex = 0\<rparr>"

text \<open>The conversation \<open>c1\<close> has started, the button was pressed and the microphone
  granted: the engine is listening.\<close>

definition started :: conversation where
  "started = run [StartResolved (Some ''c1'')] (initial (Json True) True True)"

definition listening :: conversation where
  "listening = run [FabClick, MediaResolved 0 None] started"

text \<open>One utterance is captured and flushed: press, grant, final result, press, end.\<close>

definition utterance :: "string \<Rightarrow> event list" where
  "utterance t =
     [FabClick, MediaResolved 0 None, RecognitionResult (finalResult t), FabClick, RecognitionEnd]"

text \<open>Two utterances in a row, no backend call resolved in between.\<close>

definition twoUtterances :: "event list" where
  "twoUtterances = utterance ''list issues'' @ utterance ''show contributors''"

text \<open>A first exchange is complete and its reply has been spoken; the user is listening
  again and a fragment has arrived.\<close>

definition secondCapture :: "event list" where
  "secondCapture =
     utterance ''list issues'' @
     [MessageResolved 0 (ResponseOk ''Here are the issues...''), UtteranceStart, UtteranceEnd,
      FabClick, MediaResolved 0 None, RecognitionResult (finalResult ''show'')]"

text \<open>
  An utterance is flushed and its backend call is pending; the button is pressed again and
  the microphone request is pending too; the reply arrives and is spoken; the utterance
  reports its start; only then the microphone is granted.
\<close>

definition lateGrant :: "event list" where
  "lateGrant =
     utterance ''list issues'' @
     [FabClick, MessageResolved 0 (ResponseOk ''Here are the issues...''), UtteranceStart]"

text \<open>The message of the Error that reaches the \<open>catch\<close> block of \<open>handleUserInput\<close>
  for the way the backend call ended, if it failed.\<close>

definition thrownMessage :: "response \<Rightarrow> string option" where
  "thrownMessage resp =
     (case resp of
        ResponseOk reply \<Rightarrow> None
      | ResponseNotOk m \<Rightarrow> Some (failureMessage m)
      | FetchFailed m \<Rightarrow> Some m)"

text \<open>The transport with its offer posted and not yet returned.\<close>

definition negotiating :: voice_chat where
  "negotiating =
     vc_run [SetupClick ''key'', MediaResolves (MediaGranted [Audio] ''w1'' None)] vc_initial"

text \<open>
  The setup that fails early: the microphone is granted, so the stream and its audio
  track exist, and the constructor of the peer connection then rejects the configuration
  the backend supplied. The \<open>catch\<close> block has run, \<open>stopWebRTC\<close> included.
\<close>

definition unattached :: voice_chat where
  "unattached =
     vc_run [SetupClick ''key'',
             MediaResolves (MediaGranted [Audio] ''w1'' (Some ''Invalid configuration''))]
       vc_initial"

text \<open>The candidates posted, read off the signaling trace, and the candidates the
  platform discovered, read off the events.\<close>

fun candidatesSent :: "wire list \<Rightarrow> string list" where
  "candidatesSent [] = []"
| "candidatesSent (CandidateSent w c # ws) = c # candidatesSent ws"
| "candidatesSent (OfferSent w # ws) = candidatesSent ws"
| "candidatesSent (OfferReturned # ws) = candidatesSent ws"

fun candidatesFound :: "vc_event list \<Rightarrow> string list" where
  "candidatesFound [] = []"
| "candidatesFound (IceCandidate (Some c) # es) = c # candidatesFound es"
| "candidatesFound (e # es) = candidatesFound es"


section \<open>Proofs: the capture/synthesize controller\<close>

lemmas conversation_eval =
  handleUserInput_begin_def handleUserInput_resume_def handleUserInput_catch_def
  handleReset_def speakText_def onend_def onerror_def onresult_def onresult_one_def
  toggleListening_begin_def toggleListening_resume_def
  startNewConversation_resume_def startNewConversation_begin_def mount_def
  initial_def getRepoConfig_def appendFinal_def remove_nth_def trim_def isWhiteSpace_def
  failureMessage_def thrownMessage_def Let_def
  finalResult_def interimResult_def started_def listening_def utterance_def
  twoUtterances_def secondCapture_def lateGrant_def
  finalFragments_def interimHypotheses_def reported_def userTurns_def singleFlight_def

subsection \<open>The scenarios, evaluated\<close>

lemma started_state:
  "started =
     \<lparr>messages = [], isListening = False, isSpeaking = False, speechRecognition = True,
      interimTranscript = [], finalTranscript = [], finalTranscriptRef = [], error = None,
      conversationIdRef = Some ''c1'', isInitializedRef = True, isLoading = False,
      resetDialogOpen = False, repoConfig = Json True, synthesisAvailable = True,
      recognitionActive = False, effects = [StartConversation],
      pendingMessages = [], pendingMedia = []\<rparr>"
  by (simp add: conversation_eval)

lemma listening_state:
  "listening =
     \<lparr>messages = [], isListening = True, isSpeaking = False, speechRecognition = True,
      interimTranscript = [], finalTranscript = [], finalTranscriptRef = [], error = None,
      conversationIdRef = Some ''c1'', isInitializedRef = True, isLoading = False,
      resetDialogOpen = False, repoConfig = Json True, synthesisAvailable = True,
      recognitionActive = True, effects = [StartConversation, GetUserMedia, RecognitionStart],
      pendingMessages = [], pendingMedia = []\<rparr>"
  by (simp add: listening_def started_state) (simp add: conversation_eval)

lemma utterance_state:
  "run (utterance ''list issues'') started =
     \<lparr>messages = [\<lparr>msg_text = ''list issues'', msg_type = User\<rparr>],
      isListening = False, isSpeaking = False, speechRecognition = True,
      interimTranscript = [], finalTranscript = [], finalTranscriptRef = [], error = None,
      conversationIdRef = Some ''c1'', isInitializedRef = True, isLoading = True,
      resetDialogOpen = False, repoConfig = Json True, synthesisAvailable = True,
      recognitionActive = False,
      effects = [StartConversation, GetUserMedia, RecognitionStart, RecognitionStop,
                 PostMessage ''c1'' ''list issues''],
      pendingMessages = [(''c1'', ''list issues'')], pendingMedia = []\<rparr>"
  by (simp add: utterance_def started_state) (simp add: conversation_eval)

lemma run_append: "run (es @ fs) s = run fs (run es s)"
  by (induction es arbitrary: s) simp_all

lemma twoUtterances_state:
  "run twoUtterances started =
     \<lparr>messages = [\<lparr>msg_text = ''list issues'', msg_type = User\<rparr>,
                  \<lparr>msg_text = ''show contributors'', msg_type = User\<rparr>],
      isListening = False, isSpeaking = False, speechRecognition = True,
      interimTranscript = [], finalTranscript = [], finalTranscriptRef = [], error = None,
      conversationIdRef = Some ''c1'', isInitializedRef = True, isLoading = True,
      resetDialogOpen = False, repoConfig = Json True, synthesisAvailable = True,
      recognitionActive = False,
      effects = [StartConversation, GetUserMedia, RecognitionStart, RecognitionStop,
                 PostMessage ''c1'' ''list issues'', GetUserMedia, RecognitionStart,
                 RecognitionStop, PostMessage ''c1'' ''show contributors''],
      pendingMessages = [(''c1'', ''list issues''), (''c1'', ''show contributors'')],
      pendingMedia = []\<rparr>"
  by (simp only: twoUtterances_def run_append utterance_state) (simp add: conversation_eval)

lemma secondCapture_state:
  "run secondCapture started =
     \<lparr>messages = [\<lparr>msg_text = ''list issues'', msg_type = User\<rparr>,
                  \<lparr>msg_text = ''Here are the issues...'', msg_type = System\<rparr>],
      isListening = True, isSpeaking = False, speechRecognition = True,
      interimTranscript = [], finalTranscript = ''show'', finalTranscriptRef = ''show'',
      error = None, conversationIdRef = Some ''c1'', isInitializedRef = True,
      isLoading = False, resetDialogOpen = False, repoConfig = Json True,
      synthesisAvailable = True, recognitionActive = True,
      effects = [StartConversation, GetUserMedia, RecognitionStart, RecognitionStop,
                 PostMessage ''c1'' ''list issues'', SynthCancel,
                 SynthSpeak ''Here are the issues...'', GetUserMedia, RecognitionStart],
      pendingMessages = [], pendingMedia = []\<rparr>"
  by (simp only: secondCapture_def run_append utterance_state) (simp add: conversation_eval)

lemma lateGrant_state:
  "run lateGrant started =
     \<lparr>messages = [\<lparr>msg_text = ''list issues'', msg_type = User\<rparr>,
                  \<lparr>msg_text = ''Here are the issues...'', msg_type = System\<rparr>],
      isListening = False, isSpeaking = True, speechRecognition = True,
      interimTranscript = [], finalTranscript = [], finalTranscriptRef = [],
      error = None, conversationIdRef = Some ''c1'', isInitializedRef = True,
      isLoading = False, resetDialogOpen = False, repoConfig = Json True,
      synthesisAvailable = True, recognitionActive = False,
      effects = [StartConversation, GetUserMedia, RecognitionStart, RecognitionStop,
                 PostMessage ''c1'' ''list issues'', GetUserMedia, SynthCancel,
                 SynthSpeak ''Here are the issues...''],
      pendingMessages = [], pendingMedia = [(True, False)]\<rparr>"
  by (simp only: lateGrant_def run_append utterance_state) (simp add: conversation_eval)


subsection \<open>The transcript buffer\<close>

lemma foldl_appendFinal:
  "foldl appendFinal p fs = join_spaced (dropWhile (\<lambda>f. f = []) (p # fs))"
proof (induction fs arbitrary: p)
  case Nil
  then show ?case by (simp add: appendFinal_def)
next
  case (Cons f fs)
  show ?case
  proof (cases "p = []")
    case True
    then show ?thesis using Cons[of f] by (simp add: appendFinal_def)
  next
    case False
    then show ?thesis using Cons[of "p @ '' '' @ f"]
      by (cases fs) (auto simp: appendFinal_def)
  qed
qed

lemma onresult_loop_append:
  "onresult_loop (xs @ ys) s = onresult_loop ys (onresult_loop xs s)"
  by (induction xs arbitrary: s) simp_all

lemma onresults_loop: "onresults evs s = onresult_loop (concat (map reported evs)) s"
  by (induction evs arbitrary: s) (simp_all add: onresult_def reported_def onresult_loop_append)

lemma onresult_loop_final:
  "finalTranscript (onresult_loop rs s) =
     foldl appendFinal (finalTranscript s) (map transcript (filter isFinal rs))"
  by (induction rs arbitrary: s) (simp_all add: onresult_one_def Let_def)

lemma onresult_loop_interim:
  "interimTranscript (onresult_loop rs s) =
     (if filter (\<lambda>r. \<not> isFinal r) rs = [] then interimTranscript s
      else transcript (last (filter (\<lambda>r. \<not> isFinal r) rs)))"
  by (induction rs arbitrary: s) (simp_all add: onresult_one_def Let_def)

lemma onresult_loop_ref:
  "filter isFinal rs \<noteq> [] \<Longrightarrow>
     finalTranscriptRef (onresult_loop rs s) = finalTranscript (onresult_loop rs s)"
proof (induction rs arbitrary: s rule: rev_induct)
  case Nil
  then show ?case by simp
next
  case (snoc r rs)
  show ?case
  proof (cases "isFinal r")
    case True
    then show ?thesis by (simp add: onresult_loop_append onresult_one_def Let_def)
  next
    case False
    with snoc show ?thesis by (simp add: onresult_loop_append onresult_one_def)
  qed
qed

text \<open>
  C1 (as amended). Over any sequence of recognition events and from any state: the
  interim transcript is the latest interim hypothesis alone (or what it was, if none
  came); the final transcript is the transcript held before followed by the final
  fragments in arrival order, one space between neighbours, where empty strings at the
  head of that list (an empty buffer, empty fragments arriving while it is still empty)
  take no part and get no space; and once a final fragment has arrived the ref agrees
  with the state.
\<close>

theorem C1_transcript:
  "interimTranscript (onresults evs s) =
     (if interimHypotheses evs = [] then interimTranscript s else last (interimHypotheses evs))
   \<and> finalTranscript (onresults evs s) =
       join_spaced (dropWhile (\<lambda>f. f = []) (finalTranscript s # finalFragments evs))
   \<and> (finalFragments evs \<noteq> [] \<longrightarrow>
        finalTranscriptRef (onresults evs s) = finalTranscript (onresults evs s))"
proof (intro conjI)
  show "interimTranscript (onresults evs s) =
     (if interimHypotheses evs = [] then interimTranscript s else last (interimHypotheses evs))"
    by (simp add: onresults_loop onresult_loop_interim interimHypotheses_def last_map)
  show "finalTranscript (onresults evs s) =
       join_spaced (dropWhile (\<lambda>f. f = []) (finalTranscript s # finalFragments evs))"
    by (simp only: onresults_loop onresult_loop_final foldl_appendFinal finalFragments_def)
  show "finalFragments evs \<noteq> [] \<longrightarrow>
        finalTranscriptRef (onresults evs s) = finalTranscript (onresults evs s)"
    by (simp add: onresults_loop finalFragments_def onresult_loop_ref)
qed

text \<open>The scenario of the specification: "show", an interim "contri", then
  "contributors", while listening.\<close>

theorem C1_transcript_witness:
  "finalTranscript
     (onresults [finalResult ''show'', interimResult ''contri'', finalResult ''contributors'']
        listening) = ''show contributors''
   \<and> finalTranscriptRef
     (onresults [finalResult ''show'', interimResult ''contri'', finalResult ''contributors'']
        listening) = ''show contributors''
   \<and> interimTranscript
     (onresults [finalResult ''show'', interimResult ''contri'', finalResult ''contributors'']
        listening) = ''contri''"
  using C1_transcript
    [of "[finalResult ''show'', interimResult ''contri'', finalResult ''contributors'']" listening]
  by (simp add: conversation_eval)

text \<open>An empty final fragment followed by "show": one separating space between the two
  fragments would give " show"; the buffer holds "show".\<close>

theorem C1_empty_fragment_counterexample:
  "join_spaced (finalFragments [finalResult '''', finalResult ''show'']) = '' show''
   \<and> finalTranscript (onresults [finalResult '''', finalResult ''show''] listening) = ''show''
   \<and> finalTranscript (onresults [finalResult '''', finalResult ''show''] listening) \<noteq>
       join_spaced (finalFragments [finalResult '''', finalResult ''show''])"
  by (simp add: conversation_eval)


subsection \<open>Trimming\<close>

lemma strip_end_Cons:
  assumes "\<not> P x"
  shows "\<exists>zs. rev (dropWhile P (rev (x # xs))) = x # zs"
proof (cases "\<forall>y\<in>set (rev xs). P y")
  case True
  then have "dropWhile P (rev xs @ [x]) = dropWhile P [x]"
    by (intro dropWhile_append2) blast
  with assms show ?thesis by simp
next
  case False
  then obtain y where "y \<in> set (rev xs)" "\<not> P y" by blast
  then have "dropWhile P (rev xs @ [x]) = dropWhile P (rev xs) @ [x]"
    by (rule dropWhile_append1)
  then show ?thesis by simp
qed

lemma trim_idem: "trim (trim s) = trim s"
proof (cases "dropWhile isWhiteSpace s")
  case Nil
  then have n: "trim s = []" by (simp only: trim_def rev.simps dropWhile.simps)
  have e: "trim [] = []" by (simp add: trim_def)
  show ?thesis by (simp only: n e)
next
  case (Cons x xs)
  have nx: "\<not> isWhiteSpace x"
    using hd_dropWhile[of isWhiteSpace s] Cons by simp
  obtain zs where zs: "rev (dropWhile isWhiteSpace (rev (x # xs))) = x # zs"
    using strip_end_Cons[of isWhiteSpace x xs] nx by blast
  have t: "trim s = x # zs" using Cons zs by (simp add: trim_def)
  have r: "rev (x # zs) = dropWhile isWhiteSpace (rev (x # xs))"
    using zs by (metis rev_rev_ident)
  have "trim (x # zs) = rev (dropWhile isWhiteSpace (rev (x # zs)))"
    using nx by (simp add: trim_def)
  also have "\<dots> = rev (dropWhile isWhiteSpace (rev (x # xs)))"
    by (simp only: r dropWhile_idem)
  also have "\<dots> = x # zs" by (rule zs)
  finally show ?thesis by (simp add: t)
qed

subsection \<open>What the handlers leave alone\<close>

lemma onresult_loop_messages [simp]: "messages (onresult_loop rs s) = messages s"
  by (induction rs arbitrary: s) (simp_all add: onresult_one_def Let_def)

lemma onresult_loop_pending [simp]: "pendingMessages (onresult_loop rs s) = pendingMessages s"
  by (induction rs arbitrary: s) (simp_all add: onresult_one_def Let_def)

lemma onresult_loop_synth [simp]:
  "synthesisAvailable (onresult_loop rs s) = synthesisAvailable s"
  by (induction rs arbitrary: s) (simp_all add: onresult_one_def Let_def)

lemma catch_userTurns [simp]: "userTurns (handleUserInput_catch m s) = userTurns s"
  by (simp add: userTurns_def handleUserInput_catch_def handleReset_def Let_def)

lemma catch_pending [simp]:
  "pendingMessages (handleUserInput_catch m s) = pendingMessages s"
  by (simp add: handleUserInput_catch_def handleReset_def Let_def)

lemma catch_synth [simp]:
  "synthesisAvailable (handleUserInput_catch m s) = synthesisAvailable s"
  by (simp add: handleUserInput_catch_def handleReset_def Let_def)

lemma catch_messages_prefix: "prefix (messages s) (messages (handleUserInput_catch m s))"
  by (simp add: handleUserInput_catch_def handleReset_def Let_def)

lemma resume_userTurns [simp]: "userTurns (handleUserInput_resume resp s) = userTurns s"
  by (cases resp) (simp_all add: handleUserInput_resume_def, simp_all add: userTurns_def speakText_def)

lemma resume_pending [simp]:
  "pendingMessages (handleUserInput_resume resp s) = pendingMessages s"
  by (cases resp) (simp_all add: handleUserInput_resume_def speakText_def)

lemma resume_synth [simp]:
  "synthesisAvailable (handleUserInput_resume resp s) = synthesisAvailable s"
  by (cases resp) (simp_all add: handleUserInput_resume_def speakText_def)

lemma resume_messages_prefix: "prefix (messages s) (messages (handleUserInput_resume resp s))"
  by (cases resp) (simp_all add: handleUserInput_resume_def speakText_def catch_messages_prefix)

text \<open>The first part of \<open>handleUserInput\<close>, outcome by outcome.\<close>

lemma begin_Requested:
  "handleUserInput_begin txt s = (Requested cid, s1) \<longleftrightarrow>
     trim txt \<noteq> [] \<and> getRepoConfig s = Inr True \<and> conversationIdRef s = Some cid \<and> cid \<noteq> [] \<and>
     s1 = s\<lparr>messages := messages s @ [\<lparr>msg_text = txt, msg_type = User\<rparr>],
            error := None, isLoading := True,
            effects := effects s @ [PostMessage cid txt],
            pendingMessages := pendingMessages s @ [(cid, txt)]\<rparr>"
  by (auto simp: handleUserInput_begin_def getRepoConfig_def Let_def
      split: sum.splits bool.splits option.splits stored_config.splits)

lemma begin_userTurns:
  "userTurns (snd (handleUserInput_begin txt s)) =
     (if trim txt = [] then userTurns s else userTurns s @ [\<lparr>msg_text = txt, msg_type = User\<rparr>])"
proof (cases "trim txt = []")
  case True
  then show ?thesis by (simp add: handleUserInput_begin_def)
next
  case False
  then show ?thesis
    by (simp add: handleUserInput_begin_def Let_def split: sum.split bool.split option.split)
      (simp add: userTurns_def)
qed

lemma begin_blank: "trim txt = [] \<Longrightarrow> handleUserInput_begin txt s = (Skipped, s)"
  by (simp add: handleUserInput_begin_def)

lemma begin_pending:
  "pendingMessages (snd (handleUserInput_begin txt s)) = pendingMessages s \<or>
   (\<exists>cid. trim txt \<noteq> [] \<and> pendingMessages (snd (handleUserInput_begin txt s)) = pendingMessages s @ [(cid, txt)])"
  by (simp add: handleUserInput_begin_def Let_def split: sum.split bool.split option.split)

lemma begin_synth [simp]:
  "synthesisAvailable (snd (handleUserInput_begin txt s)) = synthesisAvailable s"
  by (simp add: handleUserInput_begin_def Let_def split: sum.split bool.split option.split)

lemma begin_messages_prefix:
  "prefix (messages s) (messages (snd (handleUserInput_begin txt s)))"
proof -
  have "prefix (messages s) (messages (handleUserInput_catch m
          (s\<lparr>messages := messages s @ [\<lparr>msg_text = txt, msg_type = User\<rparr>]\<rparr>)))" for m
    using catch_messages_prefix[of "s\<lparr>messages := messages s @ [\<lparr>msg_text = txt, msg_type = User\<rparr>]\<rparr>" m]
    by (auto elim: prefix_order.order_trans[rotated])
  then show ?thesis
    by (simp add: handleUserInput_begin_def Let_def split: sum.split bool.split option.split)
qed

lemma step_userTurns: "e \<noteq> RecognitionEnd \<Longrightarrow> userTurns (step e s) = userTurns s"
proof (cases e)
  case (MessageResolved k resp)
  then show ?thesis by simp (simp add: userTurns_def)
next
  case (MediaResolved k d)
  then show ?thesis by (simp add: userTurns_def toggleListening_resume_def Let_def split: option.split)
next
  case (StartResolved r)
  then show ?thesis by (simp add: userTurns_def startNewConversation_resume_def split: option.split)
next
  case (RecognitionResult ev)
  then show ?thesis by (simp add: userTurns_def onresult_def)
qed (simp_all add: userTurns_def onerror_def toggleListening_begin_def handleReset_def)

lemma step_messages_prefix: "prefix (messages s) (messages (step e s))"
proof (cases e)
  case (MessageResolved k resp)
  then show ?thesis
    using resume_messages_prefix[of "s\<lparr>pendingMessages := remove_nth k (pendingMessages s)\<rparr>" resp]
    by simp
next
  case (MediaResolved k d)
  then show ?thesis by (simp add: toggleListening_resume_def Let_def split: option.split)
next
  case (StartResolved r)
  then show ?thesis by (simp add: startNewConversation_resume_def split: option.split)
next
  case (RecognitionResult ev)
  then show ?thesis by (simp add: onresult_def)
next
  case RecognitionEnd
  then show ?thesis
    using begin_messages_prefix[of "s\<lparr>recognitionActive := False\<rparr>"]
    by (simp add: onend_def Let_def)
qed (simp_all add: onerror_def toggleListening_begin_def handleReset_def)

lemma run_messages_prefix: "prefix (messages s) (messages (run es s))"
proof (induction es arbitrary: s)
  case Nil
  then show ?case by simp
next
  case (Cons e es)
  show ?case using step_messages_prefix[of s e] Cons[of "step e s"] by auto
qed

lemma step_synth [simp]: "synthesisAvailable (step e s) = synthesisAvailable s"
proof (cases e)
  case (MediaResolved k d)
  then show ?thesis by (simp add: toggleListening_resume_def Let_def split: option.split)
next
  case (StartResolved r)
  then show ?thesis by (simp add: startNewConversation_resume_def split: option.split)
qed (simp_all add: onerror_def onend_def onresult_def toggleListening_begin_def handleReset_def)

lemma run_synth [simp]: "synthesisAvailable (run es s) = synthesisAvailable s"
  by (induction es arbitrary: s) simp_all


subsection \<open>Flushing a Turn\<close>

lemma onend_empty: "finalTranscriptRef s = [] \<Longrightarrow> onend s = s\<lparr>isListening := False\<rparr>"
  by (simp add: onend_def)

lemma onend_userTurns:
  "finalTranscriptRef s \<noteq> [] \<Longrightarrow>
     userTurns (onend s) =
       (if trim (finalTranscriptRef s) = [] then userTurns s
        else userTurns s @ [\<lparr>msg_text = trim (finalTranscriptRef s), msg_type = User\<rparr>])"
  using begin_userTurns[of "trim (finalTranscriptRef s)" s]
  by (simp add: onend_def Let_def userTurns_def trim_idem)

lemma onend_blank:
  "finalTranscriptRef s \<noteq> [] \<Longrightarrow> trim (finalTranscriptRef s) = [] \<Longrightarrow>
     onend s = s\<lparr>finalTranscript := [], finalTranscriptRef := [], isListening := False\<rparr>"
proof -
  assume ne: "finalTranscriptRef s \<noteq> []" and bl: "trim (finalTranscriptRef s) = []"
  have "trim (trim (finalTranscriptRef s)) = []" by (simp only: trim_idem) (rule bl)
  then have "handleUserInput_begin (trim (finalTranscriptRef s)) s = (Skipped, s)"
    by (rule begin_blank)
  then show ?thesis using ne by (simp add: onend_def Let_def)
qed

lemma onend_cleared:
  "finalTranscriptRef s \<noteq> [] \<Longrightarrow>
     finalTranscriptRef (onend s) = [] \<and> finalTranscript (onend s) = []"
  by (simp add: onend_def Let_def)

text \<open>
  C2 (as amended). A user Turn is appended at the engine's end-of-session notification
  and by nothing else, so not by the stop request. At that notification: when the final
  transcript is non-empty both buffers are cleared, and exactly one user Turn, carrying
  the trimmed transcript, is appended if the transcript has a character that is not white
  space; a transcript of white space only appends no Turn, issues no call and sets no
  error; when the final transcript is empty nothing changes but the listening flag.
\<close>

theorem C2_flush_at_end:
  "(e \<noteq> RecognitionEnd \<longrightarrow> userTurns (step e s) = userTurns s)
   \<and> (finalTranscriptRef s \<noteq> [] \<and> trim (finalTranscriptRef s) \<noteq> [] \<longrightarrow>
        userTurns (onend s) =
          userTurns s @ [\<lparr>msg_text = trim (finalTranscriptRef s), msg_type = User\<rparr>])
   \<and> (finalTranscriptRef s \<noteq> [] \<and> trim (finalTranscriptRef s) = [] \<longrightarrow>
        messages (onend s) = messages s \<and> error (onend s) = error s \<and>
        effects (onend s) = effects s \<and> pendingMessages (onend s) = pendingMessages s)
   \<and> (finalTranscriptRef s \<noteq> [] \<longrightarrow>
        finalTranscriptRef (onend s) = [] \<and> finalTranscript (onend s) = [])
   \<and> (finalTranscriptRef s = [] \<longrightarrow> onend s = s\<lparr>isListening := False\<rparr>)"
proof (intro conjI impI)
  assume "e \<noteq> RecognitionEnd"
  then show "userTurns (step e s) = userTurns s" by (rule step_userTurns)
next
  assume "finalTranscriptRef s \<noteq> [] \<and> trim (finalTranscriptRef s) \<noteq> []"
  then show "userTurns (onend s) =
      userTurns s @ [\<lparr>msg_text = trim (finalTranscriptRef s), msg_type = User\<rparr>]"
    by (simp add: onend_userTurns)
next
  assume a: "finalTranscriptRef s \<noteq> [] \<and> trim (finalTranscriptRef s) = []"
  then have b: "onend s = s\<lparr>finalTranscript := [], finalTranscriptRef := [], isListening := False\<rparr>"
    by (simp add: onend_blank)
  show "messages (onend s) = messages s" by (simp add: b)
  show "error (onend s) = error s" by (simp add: b)
  show "effects (onend s) = effects s" by (simp add: b)
  show "pendingMessages (onend s) = pendingMessages s" by (simp add: b)
next
  assume "finalTranscriptRef s \<noteq> []"
  then show "finalTranscriptRef (onend s) = []" "finalTranscript (onend s) = []"
    by (simp_all add: onend_cleared)
next
  assume "finalTranscriptRef s = []"
  then show "onend s = s\<lparr>isListening := False\<rparr>" by (rule onend_empty)
qed

text \<open>Listening with "show contributors" in the buffer: the stop request appends no
  Turn, the end notification appends the one Turn and clears the buffer.\<close>

theorem C2_flush_at_end_witness:
  "userTurns (step FabClick (onresults [finalResult ''show'', finalResult ''contributors''] listening)) = []
   \<and> userTurns (onend (onresults [finalResult ''show'', finalResult ''contributors''] listening)) =
       [\<lparr>msg_text = ''show contributors'', msg_type = User\<rparr>]
   \<and> finalTranscriptRef (onend (onresults [finalResult ''show'', finalResult ''contributors''] listening)) = []
   \<and> onend started = started\<lparr>isListening := False\<rparr>"
  using C2_flush_at_end[of FabClick "onresults [finalResult ''show'', finalResult ''contributors''] listening"]
    C2_flush_at_end[of FabClick started]
  by (simp add: conversation_eval)

text \<open>A final fragment that is one space: the final transcript is non-empty at the end
  notification, and no Turn is appended.\<close>

theorem C2_blank_transcript_counterexample:
  "finalTranscriptRef (onresults [finalResult '' ''] listening) \<noteq> []
   \<and> messages (step RecognitionEnd (onresults [finalResult '' ''] listening)) =
       messages (onresults [finalResult '' ''] listening)
   \<and> pendingMessages (step RecognitionEnd (onresults [finalResult '' ''] listening)) = []"
  by (simp add: conversation_eval)

subsection \<open>Submitting an utterance\<close>

text \<open>
  C3. For every non-empty text whose submission reaches the backend (the first part of
  \<open>handleUserInput\<close> ends with the call issued): that part appends the User Turn with
  the text and issues the one call; whatever happens until the call resolves keeps the
  history up to that Turn; and when the call resolves with a reply, the Assistant Turn
  with the reply text is appended at the end, behind the User Turn, and \<open>speakText\<close>
  runs once on the reply: on a platform with speech synthesis the calls made are one
  \<open>cancel\<close> and one \<open>speak\<close> of exactly that text. With nothing in between the
  history grows by exactly the two Turns.
\<close>

theorem C3_submit_success:
  assumes "txt \<noteq> []" and "handleUserInput_begin txt s = (Requested cid, s1)"
  shows "messages s1 = messages s @ [\<lparr>msg_text = txt, msg_type = User\<rparr>]
     \<and> effects s1 = effects s @ [PostMessage cid txt]
     \<and> prefix (messages s @ [\<lparr>msg_text = txt, msg_type = User\<rparr>]) (messages (run es s1))
     \<and> messages (handleUserInput_resume (ResponseOk reply) (run es s1)) =
         messages (run es s1) @ [\<lparr>msg_text = reply, msg_type = System\<rparr>]
     \<and> effects (handleUserInput_resume (ResponseOk reply) (run es s1)) =
         effects (run es s1) @ (if synthesisAvailable s then [SynthCancel, SynthSpeak reply] else [])
     \<and> messages (handleUserInput_resume (ResponseOk reply) s1) =
         messages s @ [\<lparr>msg_text = txt, msg_type = User\<rparr>, \<lparr>msg_text = reply, msg_type = System\<rparr>]"
proof -
  from assms(2) have s1: "s1 = s\<lparr>messages := messages s @ [\<lparr>msg_text = txt, msg_type = User\<rparr>],
            error := None, isLoading := True,
            effects := effects s @ [PostMessage cid txt],
            pendingMessages := pendingMessages s @ [(cid, txt)]\<rparr>"
    by (simp add: begin_Requested)
  have m: "messages s1 = messages s @ [\<lparr>msg_text = txt, msg_type = User\<rparr>]" by (simp add: s1)
  have e: "effects s1 = effects s @ [PostMessage cid txt]" by (simp add: s1)
  have p: "prefix (messages s @ [\<lparr>msg_text = txt, msg_type = User\<rparr>]) (messages (run es s1))"
    using run_messages_prefix[of s1 es] by (simp only: m)
  have sy: "synthesisAvailable (run es s1) = synthesisAvailable s" by (simp add: s1)
  have r: "messages (handleUserInput_resume (ResponseOk reply) t) =
         messages t @ [\<lparr>msg_text = reply, msg_type = System\<rparr>]" for t
    by (simp add: handleUserInput_resume_def speakText_def)
  have f: "effects (handleUserInput_resume (ResponseOk reply) (run es s1)) =
         effects (run es s1) @ (if synthesisAvailable s then [SynthCancel, SynthSpeak reply] else [])"
    using sy by (simp add: handleUserInput_resume_def speakText_def)
  show ?thesis using m e p f by (simp add: r)
qed

text \<open>The scenario of the specification: "list issues" with the reply
  "Here are the issues...".\<close>

theorem C3_submit_success_witness:
  "messages (handleUserInput_resume (ResponseOk ''Here are the issues...'')
       (snd (handleUserInput_begin ''list issues'' started))) =
     [\<lparr>msg_text = ''list issues'', msg_type = User\<rparr>,
      \<lparr>msg_text = ''Here are the issues...'', msg_type = System\<rparr>]
   \<and> effects (handleUserInput_resume (ResponseOk ''Here are the issues...'')
       (snd (handleUserInput_begin ''list issues'' started))) =
     [StartConversation, PostMessage ''c1'' ''list issues'',
      SynthCancel, SynthSpeak ''Here are the issues...'']"
proof -
  have b: "handleUserInput_begin ''list issues'' started =
      (Requested ''c1'', snd (handleUserInput_begin ''list issues'' started))"
    by (simp add: conversation_eval)
  have n: "''list issues'' \<noteq> []" by simp
  show ?thesis
    using C3_submit_success[OF n b, of "[]" "''Here are the issues...''"]
    by (simp add: conversation_eval)
qed


text \<open>
  C4. When the backend message call fails, the error text is set and the loading flag
  cleared; if the message of the failure contains "repository" the controller resets
  instead of answering: the conversation id is dropped, the reset dialog closed and the
  user sent to the setup route, with no Turn appended; for every other failure the
  generic fallback Assistant Turn is appended, the conversation id is kept and nobody
  is sent anywhere.
\<close>

theorem C4_submit_failure:
  assumes "thrownMessage resp = Some m"
  shows "error (handleUserInput_resume resp s) =
           Some ''Sorry, there was an error processing your request. Please try again.''
     \<and> isLoading (handleUserInput_resume resp s) = False
     \<and> (if str_includes m ''repository'' then
           conversationIdRef (handleUserInput_resume resp s) = None
           \<and> effects (handleUserInput_resume resp s) = effects s @ [Navigate ''/auth'']
           \<and> resetDialogOpen (handleUserInput_resume resp s) = False
           \<and> messages (handleUserInput_resume resp s) = messages s
         else
           messages (handleUserInput_resume resp s) = messages s @
             [\<lparr>msg_text = ''I'm having trouble processing your request right now. Please try again.'',
               msg_type = System\<rparr>]
           \<and> conversationIdRef (handleUserInput_resume resp s) = conversationIdRef s
           \<and> effects (handleUserInput_resume resp s) = effects s)"
proof -
  have r: "handleUserInput_resume resp s = handleUserInput_catch m s"
    using assms by (cases resp) (simp_all add: thrownMessage_def handleUserInput_resume_def)
  show ?thesis
    unfolding r by (simp add: handleUserInput_catch_def handleReset_def Let_def)
qed

text \<open>A response that is not ok and names the repository, and one with no message.\<close>

theorem C4_submit_failure_witness:
  "conversationIdRef (handleUserInput_resume (ResponseNotOk (Some ''Invalid repository URL''))
       (run (utterance ''list issues'') started)) = None
   \<and> effects (handleUserInput_resume (ResponseNotOk (Some ''Invalid repository URL''))
       (run (utterance ''list issues'') started)) =
       effects (run (utterance ''list issues'') started) @ [Navigate ''/auth'']
   \<and> messages (handleUserInput_resume (ResponseNotOk None)
       (run (utterance ''list issues'') started)) =
       [\<lparr>msg_text = ''list issues'', msg_type = User\<rparr>,
        \<lparr>msg_text = ''I'm having trouble processing your request right now. Please try again.'',
          msg_type = System\<rparr>]
   \<and> conversationIdRef (handleUserInput_resume (ResponseNotOk None)
       (run (utterance ''list issues'') started)) = Some ''c1''"
proof -
  have a: "thrownMessage (ResponseNotOk (Some ''Invalid repository URL'')) =
      Some ''Invalid repository URL''"
    by (simp add: thrownMessage_def failureMessage_def)
  have b: "thrownMessage (ResponseNotOk None) = Some ''Failed to process message''"
    by (simp add: thrownMessage_def failureMessage_def)
  show ?thesis
    using C4_submit_failure[OF a, of "run (utterance ''list issues'') started"]
      C4_submit_failure[OF b, of "run (utterance ''list issues'') started"]
    by (simp add: utterance_state)
qed

subsection \<open>Outstanding backend calls\<close>

lemma step_pending_bound:
  assumes "length (pendingMessages s) \<le> length (userTurns s)"
  shows "length (pendingMessages (step e s)) \<le> length (userTurns (step e s))"
proof (cases "e = RecognitionEnd")
  case True
  let ?s = "s\<lparr>recognitionActive := False\<rparr>"
  have u: "userTurns ?s = userTurns s" by (simp add: userTurns_def)
  show ?thesis
  proof (cases "finalTranscriptRef s = []")
    case True
    with \<open>e = RecognitionEnd\<close> assms show ?thesis by (simp add: onend_def userTurns_def)
  next
    case False
    let ?t = "trim (finalTranscriptRef s)"
    have p: "pendingMessages (onend ?s) = pendingMessages (snd (handleUserInput_begin ?t ?s))"
      using False by (simp add: onend_def Let_def)
    have q: "userTurns (onend ?s) = userTurns (snd (handleUserInput_begin ?t ?s))"
      using False by (simp add: onend_def Let_def userTurns_def)
    show ?thesis
      using begin_pending[of ?t ?s] begin_userTurns[of ?t ?s] assms u \<open>e = RecognitionEnd\<close>
      by (auto simp: p q)
  qed
next
  case False
  have le: "length (pendingMessages (step e s)) \<le> length (pendingMessages s)"
  proof (cases e)
    case (MessageResolved k resp)
    then show ?thesis by (simp add: remove_nth_def)
  next
    case (MediaResolved k d)
    then show ?thesis by (simp add: toggleListening_resume_def Let_def split: option.split)
  next
    case (StartResolved r)
    then show ?thesis by (simp add: startNewConversation_resume_def split: option.split)
  next
    case (RecognitionResult ev)
    then show ?thesis by (simp add: onresult_def)
  next
    case RecognitionEnd
    with False show ?thesis by simp
  qed (simp_all add: onerror_def toggleListening_begin_def handleReset_def)
  with assms step_userTurns[OF False, of s] show ?thesis by simp
qed

lemma run_pending_bound:
  "length (pendingMessages s) \<le> length (userTurns s) \<Longrightarrow>
     length (pendingMessages (run es s)) \<le> length (userTurns (run es s))"
  by (induction es arbitrary: s) (simp_all add: step_pending_bound)

lemma initial_pending: "pendingMessages (initial cfg synth recog) = []"
  by (simp add: initial_def mount_def startNewConversation_begin_def
      split: sum.split bool.split)

text \<open>
  C5 (as amended). Backend message calls are not serialised. A submission issues its
  call exactly when its text is not blank, a configuration is stored and a conversation
  id is held; calls still unresolved play no part, and the new call joins them. What
  does hold in every reachable state: the unresolved calls never outnumber the user
  Turns appended, each call having been issued together with its Turn.
\<close>

theorem C5_calls_not_serialised:
  "(fst (handleUserInput_begin txt s) = Requested cid \<longleftrightarrow>
      trim txt \<noteq> [] \<and> getRepoConfig s = Inr True \<and> conversationIdRef s = Some cid \<and> cid \<noteq> [])
   \<and> (fst (handleUserInput_begin txt s) = Requested cid \<longrightarrow>
        pendingMessages (snd (handleUserInput_begin txt s)) = pendingMessages s @ [(cid, txt)])
   \<and> length (pendingMessages (run es (initial cfg synth recog)))
        \<le> length (userTurns (run es (initial cfg synth recog)))"
proof (intro conjI impI)
  show "fst (handleUserInput_begin txt s) = Requested cid \<longleftrightarrow>
      trim txt \<noteq> [] \<and> getRepoConfig s = Inr True \<and> conversationIdRef s = Some cid \<and> cid \<noteq> []"
    by (metis begin_Requested fst_conv prod.collapse)
next
  assume "fst (handleUserInput_begin txt s) = Requested cid"
  then have "handleUserInput_begin txt s = (Requested cid, snd (handleUserInput_begin txt s))"
    by (metis prod.collapse)
  then show "pendingMessages (snd (handleUserInput_begin txt s)) = pendingMessages s @ [(cid, txt)]"
    by (simp add: begin_Requested)
next
  show "length (pendingMessages (run es (initial cfg synth recog)))
        \<le> length (userTurns (run es (initial cfg synth recog)))"
    by (rule run_pending_bound) (simp add: initial_pending)
qed

text \<open>Two utterances in a row: the second call is issued while the first is pending.\<close>

theorem C5_calls_not_serialised_witness:
  "fst (handleUserInput_begin ''show contributors'' (run (utterance ''list issues'') started))
     = Requested ''c1''
   \<and> pendingMessages (snd (handleUserInput_begin ''show contributors''
        (run (utterance ''list issues'') started))) =
      [(''c1'', ''list issues''), (''c1'', ''show contributors'')]
   \<and> length (pendingMessages (run (StartResolved (Some ''c1'') # twoUtterances)
        (initial (Json True) True True))) \<le> 2"
proof -
  have r: "run (StartResolved (Some ''c1'') # twoUtterances) (initial (Json True) True True) =
      run twoUtterances started"
    by (simp add: started_def)
  show ?thesis
    using C5_calls_not_serialised[of "''show contributors''"
        "run (utterance ''list issues'') started" "''c1''"
        "StartResolved (Some ''c1'') # twoUtterances" "Json True" True True]
    unfolding r
    by (simp add: utterance_state twoUtterances_state userTurns_def
        handleUserInput_begin_def getRepoConfig_def trim_def isWhiteSpace_def Let_def)
qed

text \<open>After two utterances in a row two calls of conversation \<open>c1\<close> are outstanding.\<close>

theorem C5_two_outstanding_counterexample:
  "pendingMessages (run twoUtterances started) =
     [(''c1'', ''list issues''), (''c1'', ''show contributors'')]
   \<and> \<not> singleFlight (run twoUtterances started)"
  by (simp add: twoUtterances_state singleFlight_def)

subsection \<open>Reset\<close>

text \<open>
  C6 (as amended). After \<open>handleReset\<close>, from any state, the conversation id is absent,
  the reset dialog is closed and the user has been sent to the setup route. Nothing else
  is touched: the Turn history, the transcript buffers, the listening and speaking flags,
  the running recognition engine, the pending backend calls and the pending microphone
  requests are as before, and no call stops the engine or cancels the speech.
\<close>

theorem C6_reset:
  "conversationIdRef (handleReset s) = None
   \<and> resetDialogOpen (handleReset s) = False
   \<and> effects (handleReset s) = effects s @ [Navigate ''/auth'']
   \<and> messages (handleReset s) = messages s
   \<and> finalTranscriptRef (handleReset s) = finalTranscriptRef s
   \<and> finalTranscript (handleReset s) = finalTranscript s
   \<and> isListening (handleReset s) = isListening s
   \<and> isSpeaking (handleReset s) = isSpeaking s
   \<and> recognitionActive (handleReset s) = recognitionActive s
   \<and> pendingMessages (handleReset s) = pendingMessages s
   \<and> pendingMedia (handleReset s) = pendingMedia s
   \<and> conversationIdRef (handleReset (handleReset s)) = None"
  by (simp add: handleReset_def)

theorem C6_reset_witness:
  "conversationIdRef (handleReset (run secondCapture started)) = None
   \<and> effects (handleReset (run secondCapture started)) =
       effects (run secondCapture started) @ [Navigate ''/auth'']
   \<and> length (messages (handleReset (run secondCapture started))) = 2"
  using C6_reset[of "run secondCapture started"]
  by (simp add: secondCapture_state)

text \<open>Reset in the middle of a second capture: the history still holds the two Turns,
  the engine is still running and the component still listening, and the last call made
  is the navigation.\<close>

theorem C6_reset_keeps_activity_counterexample:
  "messages (handleReset (run secondCapture started)) =
     [\<lparr>msg_text = ''list issues'', msg_type = User\<rparr>,
      \<lparr>msg_text = ''Here are the issues...'', msg_type = System\<rparr>]
   \<and> recognitionActive (handleReset (run secondCapture started))
   \<and> isListening (handleReset (run secondCapture started))
   \<and> RecognitionStop \<notin> set (drop (length (effects (run secondCapture started)))
        (effects (handleReset (run secondCapture started))))"
  by (simp add: secondCapture_state handleReset_def)

subsection \<open>Capture and playback\<close>

text \<open>A request to listen made while \<open>isSpeaking\<close> is set never starts the engine,
  whenever the microphone is granted afterwards and whatever the state is by then.\<close>

lemma toggleListening_gated:
  assumes "isSpeaking s"
  shows "isListening s \<or>
         (effects (toggleListening_begin s) = effects s @ [GetUserMedia]
          \<and> pendingMedia (toggleListening_begin s) = pendingMedia s @ [(speechRecognition s, True)])"
    and "toggleListening_resume (recog, True) None t = t"
    and "RecognitionStart \<notin> set (drop (length (effects t))
           (effects (toggleListening_resume (recog, True) denied t)))"
  using assms
  by (simp_all add: toggleListening_begin_def toggleListening_resume_def split: option.split)

text \<open>
  C7 (the code departs from it). The microphone is requested while nothing is spoken
  and a backend call is pending; the reply arrives, is spoken, and the utterance reports
  its start; the microphone is granted only then. The suspended \<open>toggleListening\<close>
  tests the \<open>isSpeaking\<close> of its own closure, which is still false, and starts the
  engine while the utterance is being spoken.
\<close>

theorem C7_capture_started_during_playback:
  "isSpeaking (run lateGrant started)
   \<and> \<not> recognitionActive (run lateGrant started)
   \<and> pendingMedia (run lateGrant started) = [(True, False)]
   \<and> effects (step (MediaResolved 0 None) (run lateGrant started)) =
       effects (run lateGrant started) @ [RecognitionStart]
   \<and> isSpeaking (step (MediaResolved 0 None) (run lateGrant started))
   \<and> recognitionActive (step (MediaResolved 0 None) (run lateGrant started))
   \<and> isListening (step (MediaResolved 0 None) (run lateGrant started))"
  by (simp add: lateGrant_state toggleListening_resume_def remove_nth_def)


section \<open>Proofs: the peer-audio transport\<close>

lemma negotiating_fields:
  "peerConnectionRef negotiating = Some (Suc 0)"
  "audioContextRef negotiating = Some 2"
  "sourceInputRef negotiating = Some 3"
  "sourceOutputRef negotiating = None"
  "webrtcIdRef negotiating = ''w1''"
  "signaling negotiating = [OfferSent ''w1'']"
  "awaitingAnswer negotiating = 1"
  "isMuted negotiating = False"
  "isRecording negotiating = False"
  "senders (connections negotiating (Suc 0)) = [Some 0]"
  "closed (connections negotiating (Suc 0)) = False"
  "tracks negotiating 0 = \<lparr>kind = Audio, enabled = True, ended = False\<rparr>"
  "contexts negotiating 2 = Running"
  "nodes negotiating 3 = True"
  by (simp_all add: negotiating_def vc_initial_def setupWebRTC_begin_def setupWebRTC_media_def
      Let_def)

subsection \<open>Candidates\<close>

lemma candidatesSent_append:
  "candidatesSent (xs @ ys) = candidatesSent xs @ candidatesSent ys"
  by (induction xs rule: candidatesSent.induct) simp_all

lemma stopWebRTC_signaling [simp]: "signaling (stopWebRTC s) = signaling s"
  by (simp add: stopWebRTC_def Let_def split: option.split)

lemma vc_step_candidates:
  "candidatesSent (signaling (vc_step e s)) = candidatesSent (signaling s) @ candidatesFound [e]"
proof (cases e)
  case (SetupClick k)
  then show ?thesis by (simp add: setupWebRTC_begin_def)
next
  case (MediaResolves outcome)
  then show ?thesis
    by (cases outcome)
      (simp_all add: setupWebRTC_media_def setupWebRTC_catch_def Let_def candidatesSent_append
        split: option.split)
next
  case (AnswerResolves outcome)
  then show ?thesis
    by (cases outcome)
      (simp_all add: setupWebRTC_answer_def setupWebRTC_catch_def Let_def candidatesSent_append
        split: option.split)
next
  case (IceCandidate c)
  then show ?thesis
    by (cases c) (simp_all add: handleIceCandidate_def candidatesSent_append)
next
  case (ConnectionState st)
  then show ?thesis
    by (simp add: handleConnectionStateChange_def Let_def split: option.split)
next
  case StopClick
  then show ?thesis by simp
next
  case MuteClick
  then show ?thesis by (simp add: toggleMute_def Let_def split: option.split)
qed

lemma candidatesFound_Cons:
  "candidatesFound (e # es) = candidatesFound [e] @ candidatesFound es"
  by (cases "(e # es)" rule: candidatesFound.cases) simp_all

lemma vc_run_candidates:
  "candidatesSent (signaling (vc_run es s)) = candidatesSent (signaling s) @ candidatesFound es"
proof (induction es arbitrary: s)
  case Nil
  then show ?case by simp
next
  case (Cons e es)
  have "candidatesSent (signaling (vc_run (e # es) s)) =
      (candidatesSent (signaling s) @ candidatesFound [e]) @ candidatesFound es"
    using Cons[of "vc_step e s"] by (simp only: vc_run.simps vc_step_candidates)
  then show ?case using candidatesFound_Cons[of e es] by simp
qed

text \<open>
  C8 (as amended). Every candidate the platform discovers is posted to the signaling
  endpoint at the moment of its discovery, with the \<open>webrtc_id\<close> held then and with no
  other change of state, whether or not the offer request has returned: the controller
  has no queue and holds nothing back. Over any run the candidates posted are exactly
  the candidates discovered, in order. The end-of-candidates event posts nothing.
\<close>

theorem C8_candidates_posted_at_once:
  "handleIceCandidate (Some c) s = s\<lparr>signaling := signaling s @ [CandidateSent (webrtcIdRef s) c]\<rparr>
   \<and> handleIceCandidate None s = s
   \<and> candidatesSent (signaling (vc_run es s)) = candidatesSent (signaling s) @ candidatesFound es"
  by (simp add: handleIceCandidate_def vc_run_candidates)

theorem C8_candidates_posted_at_once_witness:
  "signaling (handleIceCandidate (Some ''cand'') negotiating) =
     [OfferSent ''w1'', CandidateSent ''w1'' ''cand'']
   \<and> candidatesSent (signaling (vc_run
        [IceCandidate (Some ''a''), AnswerResolves AnswerOk, IceCandidate None,
         IceCandidate (Some ''b'')] negotiating)) = [''a'', ''b'']"
  using C8_candidates_posted_at_once[of "''cand''" negotiating "[]"]
    C8_candidates_posted_at_once[of "''cand''" negotiating
      "[IceCandidate (Some ''a''), AnswerResolves AnswerOk, IceCandidate None,
        IceCandidate (Some ''b'')]"]
  by (simp add: negotiating_fields)

text \<open>A candidate discovered while the offer request is outstanding is on the wire
  before the offer returns: it was not held back.\<close>

theorem C8_not_queued_counterexample:
  "awaitingAnswer negotiating = 1
   \<and> signaling (vc_step (IceCandidate (Some ''cand'')) negotiating) =
       [OfferSent ''w1'', CandidateSent ''w1'' ''cand'']
   \<and> \<not> candidatesHeldBack 0 (signaling (vc_step (IceCandidate (Some ''cand'')) negotiating))"
  by (simp add: negotiating_fields handleIceCandidate_def)

subsection \<open>Teardown\<close>

lemma stopSenders_apply:
  "stopSenders sds ts t = (if Some t \<in> set sds then (ts t)\<lparr>ended := True\<rparr> else ts t)"
proof (induction sds arbitrary: ts)
  case Nil
  then show ?case by simp
next
  case (Cons sd sds)
  show ?case
  proof (cases sd)
    case None
    then show ?thesis using Cons[of ts] by simp
  next
    case (Some u)
    let ?ts = "ts(u := (ts u)\<lparr>ended := True\<rparr>)"
    have "stopSenders (sd # sds) ts t = stopSenders sds ?ts t" using Some by simp
    also have "\<dots> = (if Some t \<in> set sds then (?ts t)\<lparr>ended := True\<rparr> else ?ts t)"
      by (rule Cons)
    also have "\<dots> = (if Some t \<in> set (sd # sds) then (ts t)\<lparr>ended := True\<rparr> else ts t)"
      using Some by auto
    finally show ?thesis .
  qed
qed

lemma stopWebRTC_refs:
  "peerConnectionRef (stopWebRTC s) = None"
  "audioContextRef (stopWebRTC s) = None"
  "sourceInputRef (stopWebRTC s) = None"
  "sourceOutputRef (stopWebRTC s) = None"
  "isRecording (stopWebRTC s) = False"
  "isMuted (stopWebRTC s) = False"
  by (simp_all add: stopWebRTC_def Let_def split: option.split)

lemma stopWebRTC_released:
  assumes "peerConnectionRef s = None" "audioContextRef s = None" "sourceInputRef s = None"
    "sourceOutputRef s = None" "isRecording s = False" "isMuted s = False"
  shows "stopWebRTC s = s"
  using assms by (cases s) (simp add: stopWebRTC_def)

lemma stopWebRTC_idem: "stopWebRTC (stopWebRTC s) = stopWebRTC s"
  by (rule stopWebRTC_released) (rule stopWebRTC_refs)+

lemma stopWebRTC_funpow: "(stopWebRTC ^^ Suc n) s = stopWebRTC s"
  by (induction n) (simp_all add: stopWebRTC_idem)

lemma stopWebRTC_connection:
  "peerConnectionRef s = Some p \<Longrightarrow>
     closed (connections (stopWebRTC s) p) \<and>
     (\<forall>t. Some t \<in> set (senders (connections s p)) \<longrightarrow> ended (tracks (stopWebRTC s) t))"
  by (simp add: stopWebRTC_def Let_def stopSenders_apply split: option.split)

lemma stopWebRTC_graph:
  "(audioContextRef s = Some c \<longrightarrow> contexts (stopWebRTC s) c = Closed)
   \<and> (sourceInputRef s = Some n \<longrightarrow> \<not> nodes (stopWebRTC s) n)
   \<and> (sourceOutputRef s = Some n \<longrightarrow> \<not> nodes (stopWebRTC s) n)"
  by (simp add: stopWebRTC_def Let_def split: option.split)

text \<open>
  What holds of \<open>stopWebRTC\<close> from every state. It is a total function of the state,
  with no failing branch, and running it again changes nothing, however often. After it
  the four refs are null and the recording and muted flags are cleared; the peer
  connection that was held is closed and every track of its senders is ended; the audio
  context that was held is closed and the source nodes that were held are disconnected.
\<close>

lemma stopWebRTC_teardown:
  "stopWebRTC (stopWebRTC s) = stopWebRTC s
   \<and> (stopWebRTC ^^ Suc n) s = stopWebRTC s
   \<and> peerConnectionRef (stopWebRTC s) = None
   \<and> audioContextRef (stopWebRTC s) = None
   \<and> sourceInputRef (stopWebRTC s) = None
   \<and> sourceOutputRef (stopWebRTC s) = None
   \<and> isRecording (stopWebRTC s) = False
   \<and> isMuted (stopWebRTC s) = False
   \<and> (peerConnectionRef s = Some p \<longrightarrow>
        closed (connections (stopWebRTC s) p) \<and>
        (\<forall>t. Some t \<in> set (senders (connections s p)) \<longrightarrow> ended (tracks (stopWebRTC s) t)))
   \<and> (audioContextRef s = Some c \<longrightarrow> contexts (stopWebRTC s) c = Closed)
   \<and> (sourceInputRef s = Some i \<longrightarrow> \<not> nodes (stopWebRTC s) i)
   \<and> (sourceOutputRef s = Some j \<longrightarrow> \<not> nodes (stopWebRTC s) j)"
  using stopWebRTC_graph[of s c i] stopWebRTC_graph[of s c j] stopWebRTC_connection[of s p]
  by (simp only: stopWebRTC_idem stopWebRTC_funpow stopWebRTC_refs) simp

text \<open>Teardown during negotiation: the track the connection sends is ended, the
  connection and the audio context are closed, the source node is disconnected.\<close>

lemma stopWebRTC_negotiating:
  "closed (connections (stopWebRTC negotiating) 1)
   \<and> ended (tracks (stopWebRTC negotiating) 0)
   \<and> contexts (stopWebRTC negotiating) 2 = Closed
   \<and> \<not> nodes (stopWebRTC negotiating) 3
   \<and> peerConnectionRef (stopWebRTC negotiating) = None"
  using stopWebRTC_teardown[of negotiating 1 1 2 3 0]
  by (simp add: negotiating_fields)

text \<open>The state after the setup that failed early.\<close>

lemma unattached_fields:
  "peerConnectionRef unattached = None"
  "audioContextRef unattached = None"
  "sourceInputRef unattached = None"
  "sourceOutputRef unattached = None"
  "isRecording unattached = False"
  "isMuted unattached = False"
  "vc_isLoading unattached = False"
  "vc_error unattached = Some ''Invalid configuration''"
  "tracks unattached 0 = \<lparr>kind = Audio, enabled = True, ended = False\<rparr>"
  by (simp_all add: unattached_def vc_initial_def setupWebRTC_begin_def setupWebRTC_media_def
      setupWebRTC_catch_def stopWebRTC_def Let_def)

text \<open>
  C9 (the code departs from it). Teardown is total and idempotent from every state, as
  \<open>stopWebRTC_teardown\<close> shows, but it does not leave all local tracks stopped.
  \<open>stopWebRTC\<close> reaches tracks only through the senders of the connection the ref
  holds. When the constructor of the peer connection throws after the microphone was
  granted, the ref is still null: the \<open>catch\<close> block's teardown ends no track, and
  neither does any further run. The microphone track stays live.
\<close>

theorem C9_unattached_track_stays_live:
  "peerConnectionRef unattached = None
   \<and> vc_error unattached = Some ''Invalid configuration''
   \<and> tracks unattached 0 = \<lparr>kind = Audio, enabled = True, ended = False\<rparr>
   \<and> stopWebRTC unattached = unattached
   \<and> \<not> ended (tracks (stopWebRTC unattached) 0)
   \<and> \<not> ended (tracks ((stopWebRTC ^^ 5) unattached) 0)"
proof -
  have r: "stopWebRTC unattached = unattached"
    by (rule stopWebRTC_released) (rule unattached_fields)+
  have f: "(stopWebRTC ^^ 5) unattached = stopWebRTC unattached"
    using stopWebRTC_funpow[of 4 unattached] by simp
  show ?thesis by (simp add: f r unattached_fields)
qed

subsection \<open>Mute\<close>

lemma setAudioEnabled_apply:
  "setAudioEnabled b sds ts t =
     (if Some t \<in> set sds \<and> kind (ts t) = Audio then (ts t)\<lparr>enabled := b\<rparr> else ts t)"
proof (induction sds arbitrary: ts)
  case Nil
  then show ?case by simp
next
  case (Cons sd sds)
  show ?case
  proof (cases sd)
    case None
    then show ?thesis using Cons[of ts] by simp
  next
    case (Some u)
    show ?thesis
    proof (cases "kind (ts u) = Audio")
      case True
      let ?ts = "ts(u := (ts u)\<lparr>enabled := b\<rparr>)"
      have "setAudioEnabled b (sd # sds) ts t = setAudioEnabled b sds ?ts t"
        using Some True by simp
      also have "\<dots> =
          (if Some t \<in> set sds \<and> kind (?ts t) = Audio then (?ts t)\<lparr>enabled := b\<rparr> else ?ts t)"
        by (rule Cons)
      also have "\<dots> =
          (if Some t \<in> set (sd # sds) \<and> kind (ts t) = Audio then (ts t)\<lparr>enabled := b\<rparr>
           else ts t)"
        using Some True by auto
      finally show ?thesis .
    next
      case False
      then show ?thesis using Some Cons[of ts] by auto
    qed
  qed
qed

text \<open>
  C10. Without a peer connection \<open>toggleMute\<close> returns the state as it is, the muted
  flag included. With one, the state afterwards is the state before with two fields
  replaced, the muted flag (negated) and the tracks; and of the tracks only the audio
  tracks of the connection's senders differ, in their \<open>enabled\<close> flag alone, which
  becomes the old muted flag. So the recording flag, the connection ref and the
  connections, the audio graph and the message history are unchanged.
\<close>

theorem C10_toggleMute_frame:
  "(peerConnectionRef s = None \<longrightarrow> toggleMute s = s)
   \<and> (peerConnectionRef s = Some p \<longrightarrow>
        toggleMute s = s\<lparr>tracks := tracks (toggleMute s), isMuted := \<not> isMuted s\<rparr>
        \<and> isMuted (toggleMute s) = (\<not> isMuted s)
        \<and> (\<forall>t. tracks (toggleMute s) t =
              (if Some t \<in> set (senders (connections s p)) \<and> kind (tracks s t) = Audio
               then (tracks s t)\<lparr>enabled := isMuted s\<rparr> else tracks s t))
        \<and> isRecording (toggleMute s) = isRecording s
        \<and> peerConnectionRef (toggleMute s) = peerConnectionRef s
        \<and> connections (toggleMute s) = connections s
        \<and> audioContextRef (toggleMute s) = audioContextRef s
        \<and> contexts (toggleMute s) = contexts s
        \<and> nodes (toggleMute s) = nodes s
        \<and> sourceInputRef (toggleMute s) = sourceInputRef s
        \<and> sourceOutputRef (toggleMute s) = sourceOutputRef s
        \<and> vc_messages (toggleMute s) = vc_messages s)"
  by (simp add: toggleMute_def Let_def setAudioEnabled_apply)

theorem C10_toggleMute_frame_witness:
  "toggleMute vc_initial = vc_initial
   \<and> isMuted (toggleMute negotiating)
   \<and> tracks (toggleMute negotiating) 0 = \<lparr>kind = Audio, enabled = False, ended = False\<rparr>
   \<and> tracks (toggleMute (toggleMute negotiating)) 0 = \<lparr>kind = Audio, enabled = True, ended = False\<rparr>
   \<and> isRecording (toggleMute negotiating) = isRecording negotiating"
proof -
  have i: "peerConnectionRef vc_initial = None" by (simp add: vc_initial_def)
  have m: "peerConnectionRef (toggleMute negotiating) = Some 1"
    "isMuted (toggleMute negotiating)"
    "senders (connections (toggleMute negotiating) 1) = [Some 0]"
    using C10_toggleMute_frame[of negotiating 1] by (simp_all add: negotiating_fields)
  show ?thesis
    using C10_toggleMute_frame[of vc_initial 0] C10_toggleMute_frame[of negotiating 1]
      C10_toggleMute_frame[of "toggleMute negotiating" 1] i m
    by (simp add: negotiating_fields)
qed

end
